theory Spec2Isabelle
  imports Complex_Main "HOL-Library.Char_ord" "HOL-Library.List_Lexorder" "HOL-Library.Multiset"
begin

section \<open>Numbers\<close>

text \<open>
  A JavaScript \<open>number\<close> is modelled as a finite real number, one of the two infinities,
  or NaN. Arithmetic on finite numbers is exact: rounding, overflow of a finite result to
  an infinity, and the sign of zero are not modelled. The special values follow IEEE 754
  (\<open>Infinity - Infinity\<close>, \<open>0 * Infinity\<close> and \<open>Infinity / Infinity\<close> are NaN; every
  comparison with NaN is false; \<open>Math.max\<close> and \<open>Math.min\<close> return NaN when an argument
  is NaN).
\<close>

datatype number = Fin real | PosInf | NegInf | NaN

fun isFinite :: "number \<Rightarrow> bool" where
  "isFinite (Fin _) = True"
| "isFinite _ = False"

fun num_neg :: "number \<Rightarrow> number" where
  "num_neg (Fin a) = Fin (- a)"
| "num_neg PosInf = NegInf"
| "num_neg NegInf = PosInf"
| "num_neg NaN = NaN"

fun num_add :: "number \<Rightarrow> number \<Rightarrow> number" where
  "num_add (Fin a) (Fin b) = Fin (a + b)"
| "num_add NaN _ = NaN"
| "num_add _ NaN = NaN"
| "num_add PosInf NegInf = NaN"
| "num_add NegInf PosInf = NaN"
| "num_add PosInf _ = PosInf"
| "num_add _ PosInf = PosInf"
| "num_add NegInf _ = NegInf"
| "num_add _ NegInf = NegInf"

definition num_sub :: "number \<Rightarrow> number \<Rightarrow> number" where
  "num_sub a b = num_add a (num_neg b)"

fun num_mul :: "number \<Rightarrow> number \<Rightarrow> number" where
  "num_mul (Fin a) (Fin b) = Fin (a * b)"
| "num_mul NaN _ = NaN"
| "num_mul _ NaN = NaN"
| "num_mul (Fin a) PosInf = (if a = 0 then NaN else if 0 < a then PosInf else NegInf)"
| "num_mul (Fin a) NegInf = (if a = 0 then NaN else if 0 < a then NegInf else PosInf)"
| "num_mul PosInf (Fin b) = (if b = 0 then NaN else if 0 < b then PosInf else NegInf)"
| "num_mul NegInf (Fin b) = (if b = 0 then NaN else if 0 < b then NegInf else PosInf)"
| "num_mul PosInf PosInf = PosInf"
| "num_mul PosInf NegInf = NegInf"
| "num_mul NegInf PosInf = NegInf"
| "num_mul NegInf NegInf = PosInf"

text \<open>
  Division by a zero is defined as for the zero \<open>+0\<close>; the code below divides only by
  non-zero literals or, in \<open>safeDivide\<close>, after the denominator was compared with zero.
\<close>

fun num_div :: "number \<Rightarrow> number \<Rightarrow> number" where
  "num_div (Fin a) (Fin b) =
     (if b = 0 then (if a = 0 then NaN else if 0 < a then PosInf else NegInf)
      else Fin (a / b))"
| "num_div NaN _ = NaN"
| "num_div _ NaN = NaN"
| "num_div (Fin a) PosInf = Fin 0"
| "num_div (Fin a) NegInf = Fin 0"
| "num_div PosInf (Fin b) = (if 0 \<le> b then PosInf else NegInf)"
| "num_div NegInf (Fin b) = (if 0 \<le> b then NegInf else PosInf)"
| "num_div PosInf PosInf = NaN"
| "num_div PosInf NegInf = NaN"
| "num_div NegInf PosInf = NaN"
| "num_div NegInf NegInf = NaN"

fun num_lt :: "number \<Rightarrow> number \<Rightarrow> bool" where
  "num_lt (Fin a) (Fin b) = (a < b)"
| "num_lt NaN _ = False"
| "num_lt _ NaN = False"
| "num_lt _ NegInf = False"
| "num_lt PosInf _ = False"
| "num_lt NegInf _ = True"
| "num_lt _ PosInf = True"

text \<open>\<open>a === b\<close> on numbers: NaN is equal to nothing, itself included.\<close>

definition strict_eq :: "number \<Rightarrow> number \<Rightarrow> bool" where
  "strict_eq a b = (a \<noteq> NaN \<and> b \<noteq> NaN \<and> a = b)"

definition num_le :: "number \<Rightarrow> number \<Rightarrow> bool" where
  "num_le a b = (num_lt a b \<or> strict_eq a b)"

definition num_gt :: "number \<Rightarrow> number \<Rightarrow> bool" where
  "num_gt a b = num_lt b a"

definition num_ge :: "number \<Rightarrow> number \<Rightarrow> bool" where
  "num_ge a b = num_le b a"

definition Math_max :: "number \<Rightarrow> number \<Rightarrow> number" where
  "Math_max a b = (if a = NaN \<or> b = NaN then NaN else if num_lt a b then b else a)"

definition Math_min :: "number \<Rightarrow> number \<Rightarrow> number" where
  "Math_min a b = (if a = NaN \<or> b = NaN then NaN else if num_lt b a then b else a)"


section \<open>Time utilities (utils/timeUtils.ts)\<close>

text \<open>
  A timestamp string is represented by what \<open>new Date(s).getTime()\<close> makes of it:
  \<open>Some ms\<close>, the milliseconds since the epoch, or \<open>None\<close> when the string is empty or
  does not parse (Invalid Date).
\<close>

type_synonym timestamp = "int option"

definition parseTimestamp :: "timestamp \<Rightarrow> int option" where
  "parseTimestamp ts = ts"

definition getDurationMinutes :: "timestamp \<Rightarrow> timestamp \<Rightarrow> number" where
  "getDurationMinutes startTime endTime =
     (case (parseTimestamp startTime, parseTimestamp endTime) of
        (Some s, Some e) \<Rightarrow>
          (let durationMs = e - s
           in if durationMs < 0 then Fin 0 else Fin (real_of_int durationMs / (1000 * 60)))
      | _ \<Rightarrow> Fin 0)"

definition minutesToHours :: "number \<Rightarrow> number" where
  "minutesToHours minutes = num_div minutes (Fin 60)"

definition safeDivide :: "number \<Rightarrow> number \<Rightarrow> number \<Rightarrow> number" where
  "safeDivide numerator denominator fallback =
     (if strict_eq denominator (Fin 0) \<or> \<not> isFinite denominator then fallback
      else let result = num_div numerator denominator
           in if \<not> isFinite result then fallback else result)"

text \<open>The call \<open>safeDivide(n, d)\<close> with the default fallback 0.\<close>

abbreviation safeDivide0 :: "number \<Rightarrow> number \<Rightarrow> number" where
  "safeDivide0 n d \<equiv> safeDivide n d (Fin 0)"

definition clamp :: "number \<Rightarrow> number \<Rightarrow> number \<Rightarrow> number" where
  "clamp v lo hi = Math_min (Math_max v lo) hi"

section \<open>Data model (types/*.ts)\<close>

text \<open>
  Interfaces are records. Where two interfaces share a field name, the selector of the
  interface declared earlier is written with its record name before it. A parameter or a
  local constant whose name is also a field name carries a prime.
\<close>

record GeoLocation =
  lat :: number
  lng :: number

record GPSTrackPoint =
  latitude :: number
  longitude :: number
  speed :: number
  timestamp :: timestamp
  ignitionOn :: bool

record GPSTrackResponse =
  vehicleId :: string
  startTime :: timestamp
  endTime :: timestamp
  points :: "GPSTrackPoint list"

record IdleEvent =
  startTime :: timestamp
  endTime :: timestamp
  durationMinutes :: number
  location :: GeoLocation

datatype VehicleState = Moving | Idle | Off

text \<open>The two interfaces internal to analytics/baseMetrics.ts; \<open>None\<close> is \<open>null\<close>.\<close>

record IdleEventTracker =
  isInIdleState :: bool
  idleStartTime :: "timestamp option"
  idleStartLocation :: "GeoLocation option"
  accumulatedIdleMinutes :: number
  idlePoints :: "GPSTrackPoint list"

record MetricsAccumulator =
  totalDistanceKm :: number
  totalMovingTimeMinutes :: number
  totalIdleTimeMinutes :: number
  maxSpeedKmh :: number
  numberOfStops :: number
  speedSamples :: "number list"
  longIdleEvents :: "IdleEvent list"

record VehicleRanking =
  vehicleId :: string
  vehicleName :: string
  score :: number
  rank :: nat

record AnalyticsConfig =
  idleSpeedThresholdKmh :: number
  speedingThresholdKmh :: number
  longIdleThresholdMinutes :: number
  expectedKmPerHour :: number
  stopPenaltyFactor :: number
  idleRiskFactor :: number
  varianceFactor :: number

record EfficiencyWeights =
  idleRatio :: number
  utilizationRate :: number
  distanceEfficiency :: number
  stopEfficiency :: number



text \<open>
  Counters that the code keeps as numbers (\<open>numberOfStops\<close>, \<open>totalPointsAnalyzed\<close>)
  are numbers here too: the scorers accept any value in them.
\<close>

record BaseVehicleMetrics =
  vehicleId :: string
  periodStart :: timestamp
  periodEnd :: timestamp
  totalDistanceKm :: number
  totalMovingTimeMinutes :: number
  totalIdleTimeMinutes :: number
  totalTimeMinutes :: number
  averageSpeedKmh :: number
  maxSpeedKmh :: number
  numberOfStops :: number
  longIdleEvents :: "IdleEvent list"
  totalPointsAnalyzed :: number

record DerivedVehicleMetrics = BaseVehicleMetrics +
  idleRatio :: number
  aggressiveDrivingRatio :: number
  timeOverSpeedThresholdMinutes :: number
  efficiencyScore :: number
  riskScore :: number

section \<open>Configuration (config/constants.ts)\<close>

definition ANALYTICS_CONFIG :: AnalyticsConfig where
  "ANALYTICS_CONFIG =
     \<lparr> idleSpeedThresholdKmh = Fin 2, speedingThresholdKmh = Fin 110,
       longIdleThresholdMinutes = Fin 10, expectedKmPerHour = Fin 35,
       stopPenaltyFactor = Fin 50, idleRiskFactor = Fin 15, varianceFactor = Fin 2 \<rparr>"




section \<open>Efficiency score\<close>




definition calculateStopScore :: "'a BaseVehicleMetrics_scheme \<Rightarrow> number \<Rightarrow> number" where
  "calculateStopScore metrics stopPenaltyFactor' =
     (let stopsPerKm = safeDivide0 (numberOfStops metrics) (Math_max (Fin 1) (totalDistanceKm metrics));
          score = num_sub (Fin 100) (num_mul stopsPerKm stopPenaltyFactor')
      in clamp score (Fin 0) (Fin 100))"




section \<open>Risk score\<close>

definition SPEED_EXCESS_REFERENCE_KMH :: number where
  "SPEED_EXCESS_REFERENCE_KMH = Fin 40"




definition calculateMaxSpeedSeverityScore ::
  "'a DerivedVehicleMetrics_scheme \<Rightarrow> number \<Rightarrow> number" where
  "calculateMaxSpeedSeverityScore metrics speedingThresholdKmh' =
     (let speedExcess = Math_max (Fin 0) (num_sub (maxSpeedKmh metrics) speedingThresholdKmh');
          severityRatio = safeDivide0 speedExcess SPEED_EXCESS_REFERENCE_KMH;
          score = num_mul severityRatio (Fin 100)
      in clamp score (Fin 0) (Fin 100))"

definition calculateErraticPatternScore :: "'a DerivedVehicleMetrics_scheme \<Rightarrow> number" where
  "calculateErraticPatternScore metrics =
     (if strict_eq (averageSpeedKmh metrics) (Fin 0)
      then (if num_gt (maxSpeedKmh metrics) (Fin 0) then Fin 50 else Fin 0)
      else
        let speedRatio = safeDivide (maxSpeedKmh metrics) (averageSpeedKmh metrics) (Fin 1);
            erraticRatio = num_sub speedRatio (Fin 1);
            score = num_mul erraticRatio (Fin 100)
        in clamp score (Fin 0) (Fin 100))"




section \<open>Cost model\<close>


section \<open>Geographic calculations (utils/geoCalculations.ts)\<close>

text \<open>
  The functions of \<open>Math\<close> on the real numbers, with the IEEE results at the infinities
  and NaN.
\<close>

definition Math_PI :: number where
  "Math_PI = Fin pi"

fun Math_sin :: "number \<Rightarrow> number" where
  "Math_sin (Fin x) = Fin (sin x)"
| "Math_sin _ = NaN"

fun Math_cos :: "number \<Rightarrow> number" where
  "Math_cos (Fin x) = Fin (cos x)"
| "Math_cos _ = NaN"

fun Math_sqrt :: "number \<Rightarrow> number" where
  "Math_sqrt (Fin x) = (if x < 0 then NaN else Fin (sqrt x))"
| "Math_sqrt PosInf = PosInf"
| "Math_sqrt _ = NaN"

definition atan2_real :: "real \<Rightarrow> real \<Rightarrow> real" where
  "atan2_real y x =
     (if 0 < x then arctan (y / x)
      else if x < 0 then (if 0 \<le> y then arctan (y / x) + pi else arctan (y / x) - pi)
      else if 0 < y then pi / 2
      else if y < 0 then - (pi / 2)
      else 0)"

fun Math_atan2 :: "number \<Rightarrow> number \<Rightarrow> number" where
  "Math_atan2 (Fin y) (Fin x) = Fin (atan2_real y x)"
| "Math_atan2 NaN _ = NaN"
| "Math_atan2 _ NaN = NaN"
| "Math_atan2 (Fin y) PosInf = Fin 0"
| "Math_atan2 (Fin y) NegInf = (if 0 \<le> y then Fin pi else Fin (- pi))"
| "Math_atan2 PosInf (Fin x) = Fin (pi / 2)"
| "Math_atan2 NegInf (Fin x) = Fin (- (pi / 2))"
| "Math_atan2 PosInf PosInf = Fin (pi / 4)"
| "Math_atan2 PosInf NegInf = Fin (3 * pi / 4)"
| "Math_atan2 NegInf PosInf = Fin (- (pi / 4))"
| "Math_atan2 NegInf NegInf = Fin (- (3 * pi / 4))"

definition EARTH_RADIUS_KM :: number where
  "EARTH_RADIUS_KM = Fin 6371"

definition DEG_TO_RAD :: number where
  "DEG_TO_RAD = num_div Math_PI (Fin 180)"

definition degreesToRadians :: "number \<Rightarrow> number" where
  "degreesToRadians degrees = num_mul degrees DEG_TO_RAD"

definition haversineDistance :: "number \<Rightarrow> number \<Rightarrow> number \<Rightarrow> number \<Rightarrow> number" where
  "haversineDistance lat1 lon1 lat2 lon2 =
     (if strict_eq lat1 lat2 \<and> strict_eq lon1 lon2 then Fin 0
      else
        let dLat = degreesToRadians (num_sub lat2 lat1);
            dLon = degreesToRadians (num_sub lon2 lon1);
            lat1Rad = degreesToRadians lat1;
            lat2Rad = degreesToRadians lat2;
            a = num_add
                  (num_mul (Math_sin (num_div dLat (Fin 2))) (Math_sin (num_div dLat (Fin 2))))
                  (num_mul (num_mul (num_mul (Math_cos lat1Rad) (Math_cos lat2Rad))
                                    (Math_sin (num_div dLon (Fin 2))))
                           (Math_sin (num_div dLon (Fin 2))));
            c = num_mul (Fin 2) (Math_atan2 (Math_sqrt a) (Math_sqrt (num_sub (Fin 1) a)))
        in num_mul EARTH_RADIUS_KM c)"

text \<open>The body of the loop of \<open>calculateCentroid\<close>, on the triple \<open>(x, y, z)\<close>.\<close>

definition centroidStep :: "number \<times> number \<times> number \<Rightarrow> GPSTrackPoint \<Rightarrow> number \<times> number \<times> number" where
  "centroidStep xyz point =
     (case xyz of (x, y, z) \<Rightarrow>
        let latRad = degreesToRadians (latitude point);
            lonRad = degreesToRadians (longitude point)
        in (num_add x (num_mul (Math_cos latRad) (Math_cos lonRad)),
            num_add y (num_mul (Math_cos latRad) (Math_sin lonRad)),
            num_add z (Math_sin latRad)))"

definition calculateCentroid :: "GPSTrackPoint list \<Rightarrow> GeoLocation option" where
  "calculateCentroid pts =
     (case pts of
        [] \<Rightarrow> None
      | [firstPoint] \<Rightarrow> Some \<lparr> lat = latitude firstPoint, lng = longitude firstPoint \<rparr>
      | _ \<Rightarrow>
         (case foldl centroidStep (Fin 0, Fin 0, Fin 0) pts of (x0, y0, z0) \<Rightarrow>
            let count = Fin (real (length pts));
                x = num_div x0 count;
                y = num_div y0 count;
                z = num_div z0 count;
                centralLon = Math_atan2 y x;
                centralSquareRoot = Math_sqrt (num_add (num_mul x x) (num_mul y y));
                centralLat = Math_atan2 z centralSquareRoot
            in Some \<lparr> lat = num_mul centralLat (num_div (Fin 180) Math_PI),
                      lng = num_mul centralLon (num_div (Fin 180) Math_PI) \<rparr>))"

section \<open>Base metrics (analytics/baseMetrics.ts)\<close>

definition getPointDurationMinutes :: "GPSTrackPoint \<Rightarrow> GPSTrackPoint \<Rightarrow> number" where
  "getPointDurationMinutes point1 point2 = getDurationMinutes (timestamp point1) (timestamp point2)"

definition classifyPointState :: "GPSTrackPoint \<Rightarrow> AnalyticsConfig \<Rightarrow> VehicleState" where
  "classifyPointState point config =
     (if \<not> ignitionOn point then Off
      else if num_lt (speed point) (idleSpeedThresholdKmh config) then Idle
      else Moving)"

definition isStopTransition :: "VehicleState \<Rightarrow> VehicleState \<Rightarrow> bool" where
  "isStopTransition previousState currentState =
     (previousState = Moving \<and> (currentState = Idle \<or> currentState = Off))"

definition createIdleTracker :: IdleEventTracker where
  "createIdleTracker =
     \<lparr> isInIdleState = False, idleStartTime = None, idleStartLocation = None,
       accumulatedIdleMinutes = Fin 0, idlePoints = [] \<rparr>"

definition enterIdleState :: "IdleEventTracker \<Rightarrow> GPSTrackPoint \<Rightarrow> IdleEventTracker" where
  "enterIdleState tracker point =
     tracker \<lparr> isInIdleState := True,
               idleStartTime := Some (timestamp point),
               idleStartLocation := Some \<lparr> lat = latitude point, lng = longitude point \<rparr>,
               accumulatedIdleMinutes := Fin 0,
               idlePoints := [point] \<rparr>"

definition accumulateIdleTime ::
  "IdleEventTracker \<Rightarrow> GPSTrackPoint \<Rightarrow> number \<Rightarrow> IdleEventTracker" where
  "accumulateIdleTime tracker point durationMinutes' =
     tracker \<lparr> accumulatedIdleMinutes := num_add (accumulatedIdleMinutes tracker) durationMinutes',
               idlePoints := idlePoints tracker @ [point] \<rparr>"

text \<open>The result object \<open>{ tracker, event }\<close> is a pair.\<close>

definition exitIdleState ::
  "IdleEventTracker \<Rightarrow> timestamp \<Rightarrow> number \<Rightarrow> IdleEventTracker \<times> IdleEvent option" where
  "exitIdleState tracker endTime' longIdleThresholdMinutes' =
     (let event =
            (if num_ge (accumulatedIdleMinutes tracker) longIdleThresholdMinutes'
                \<and> idleStartTime tracker \<noteq> None
             then
               let centroid = calculateCentroid (idlePoints tracker);
                   location' =
                     (case centroid of
                        Some c \<Rightarrow> c
                      | None \<Rightarrow>
                         (case idleStartLocation tracker of
                            Some l \<Rightarrow> l
                          | None \<Rightarrow> \<lparr> lat = Fin 0, lng = Fin 0 \<rparr>))
               in Some \<lparr> startTime = the (idleStartTime tracker),
                         endTime = endTime',
                         durationMinutes = accumulatedIdleMinutes tracker,
                         location = location' \<rparr>
             else None);
          newTracker = createIdleTracker
      in (newTracker, event))"

definition calculateSegmentDistance ::
  "GPSTrackPoint \<Rightarrow> GPSTrackPoint \<Rightarrow> VehicleState \<Rightarrow> number" where
  "calculateSegmentDistance prevPoint currPoint prevState =
     (if prevState \<noteq> Moving then Fin 0
      else haversineDistance (latitude prevPoint) (longitude prevPoint)
             (latitude currPoint) (longitude currPoint))"

definition createEmptyMetrics ::
  "string \<Rightarrow> timestamp \<Rightarrow> timestamp \<Rightarrow> number \<Rightarrow> BaseVehicleMetrics" where
  "createEmptyMetrics vehicleId' periodStart' periodEnd' totalTimeMinutes' =
     \<lparr> vehicleId = vehicleId', periodStart = periodStart', periodEnd = periodEnd',
       totalDistanceKm = Fin 0, totalMovingTimeMinutes = Fin 0, totalIdleTimeMinutes = Fin 0,
       totalTimeMinutes = totalTimeMinutes', averageSpeedKmh = Fin 0, maxSpeedKmh = Fin 0,
       numberOfStops = Fin 0, longIdleEvents = [], totalPointsAnalyzed = Fin 0 \<rparr>"

text \<open>
  The variables that the loop of \<open>computeBaseMetrics\<close> updates: \<open>accumulator\<close>,
  \<open>idleTracker\<close> and \<open>previousState\<close> (\<open>None\<close> is \<open>null\<close>).
\<close>

record LoopState =
  accumulator :: MetricsAccumulator
  idleTracker :: IdleEventTracker
  previousState :: "VehicleState option"

text \<open>
  The blocks of the loop body, in the order of the source. An element of \<open>points\<close> is an
  object, so the guards \<open>if (!currentPoint) continue\<close> and \<open>if (prevPoint)\<close> never
  skip anything.
\<close>

text \<open>Track max speed (only when ignition is on).\<close>

definition trackMaxSpeed :: "GPSTrackPoint \<Rightarrow> MetricsAccumulator \<Rightarrow> MetricsAccumulator" where
  "trackMaxSpeed currentPoint acc =
     (if ignitionOn currentPoint \<and> num_gt (speed currentPoint) (MetricsAccumulator.maxSpeedKmh acc)
      then acc \<lparr> MetricsAccumulator.maxSpeedKmh := speed currentPoint \<rparr>
      else acc)"

text \<open>Collect speed samples for moving points.\<close>

definition collectSpeedSample ::
  "GPSTrackPoint \<Rightarrow> VehicleState \<Rightarrow> MetricsAccumulator \<Rightarrow> MetricsAccumulator" where
  "collectSpeedSample currentPoint currentState acc =
     (if currentState = Moving
      then acc \<lparr> speedSamples := speedSamples acc @ [speed currentPoint] \<rparr>
      else acc)"

text \<open>
  Process the segment from the previous point to the current point: its duration goes to
  the previous point's state, then a stop transition is counted.
\<close>

definition processSegment ::
  "GPSTrackPoint \<Rightarrow> GPSTrackPoint \<Rightarrow> VehicleState \<Rightarrow> VehicleState \<Rightarrow>
   MetricsAccumulator \<Rightarrow> IdleEventTracker \<Rightarrow> MetricsAccumulator \<times> IdleEventTracker" where
  "processSegment prevPoint currentPoint previousState' currentState acc tracker =
       (let segmentDuration = getPointDurationMinutes prevPoint currentPoint;
            (acc1, tracker1) =
              (if previousState' = Moving then
                 let segmentDistance = calculateSegmentDistance prevPoint currentPoint previousState'
                 in (acc \<lparr> MetricsAccumulator.totalDistanceKm :=
                              num_add (MetricsAccumulator.totalDistanceKm acc) segmentDistance,
                            MetricsAccumulator.totalMovingTimeMinutes :=
                              num_add (MetricsAccumulator.totalMovingTimeMinutes acc) segmentDuration \<rparr>,
                     tracker)
               else if previousState' = Idle then
                 (acc \<lparr> MetricsAccumulator.totalIdleTimeMinutes :=
                           num_add (MetricsAccumulator.totalIdleTimeMinutes acc) segmentDuration \<rparr>,
                  accumulateIdleTime tracker currentPoint segmentDuration)
               else (acc, tracker));
            acc2 =
              (if isStopTransition previousState' currentState
               then acc1 \<lparr> MetricsAccumulator.numberOfStops :=
                             num_add (MetricsAccumulator.numberOfStops acc1) (Fin 1) \<rparr>
               else acc1)
        in (acc2, tracker1))"

text \<open>Handle idle state transitions: entering idle, or exiting it.\<close>

definition handleIdleTransition ::
  "AnalyticsConfig \<Rightarrow> GPSTrackPoint \<Rightarrow> VehicleState option \<Rightarrow> VehicleState \<Rightarrow>
   MetricsAccumulator \<Rightarrow> IdleEventTracker \<Rightarrow> MetricsAccumulator \<times> IdleEventTracker" where
  "handleIdleTransition config currentPoint previousState' currentState acc tracker =
       (if currentState = Idle \<and> previousState' \<noteq> Some Idle then
          (acc, enterIdleState tracker currentPoint)
        else if currentState \<noteq> Idle \<and> previousState' = Some Idle then
          let result = exitIdleState tracker (timestamp currentPoint) (longIdleThresholdMinutes config)
          in (case snd result of
                Some event \<Rightarrow>
                  (acc \<lparr> MetricsAccumulator.longIdleEvents :=
                            MetricsAccumulator.longIdleEvents acc @ [event] \<rparr>, fst result)
              | None \<Rightarrow> (acc, fst result))
        else (acc, tracker))"

text \<open>One iteration of \<open>for (let i = 0; i < points.length; i++)\<close>.\<close>

definition loopBody :: "AnalyticsConfig \<Rightarrow> GPSTrackPoint list \<Rightarrow> LoopState \<Rightarrow> nat \<Rightarrow> LoopState" where
  "loopBody config pts st i =
     (let currentPoint = pts ! i;
          currentState = classifyPointState currentPoint config;
          acc1 = trackMaxSpeed currentPoint (accumulator st);
          acc2 = collectSpeedSample currentPoint currentState acc1;
          (acc3, tracker3) =
            (case previousState st of
               Some prev \<Rightarrow>
                 if 0 < i
                 then processSegment (pts ! (i - 1)) currentPoint prev currentState
                        acc2 (idleTracker st)
                 else (acc2, idleTracker st)
             | None \<Rightarrow> (acc2, idleTracker st));
          (acc4, tracker4) =
            handleIdleTransition config currentPoint (previousState st) currentState acc3 tracker3
      in \<lparr> accumulator = acc4, idleTracker = tracker4, previousState = Some currentState \<rparr>)"

definition initialLoopState :: LoopState where
  "initialLoopState =
     \<lparr> accumulator =
         \<lparr> MetricsAccumulator.totalDistanceKm = Fin 0,
           MetricsAccumulator.totalMovingTimeMinutes = Fin 0,
           MetricsAccumulator.totalIdleTimeMinutes = Fin 0,
           MetricsAccumulator.maxSpeedKmh = Fin 0,
           MetricsAccumulator.numberOfStops = Fin 0,
           speedSamples = [],
           MetricsAccumulator.longIdleEvents = [] \<rparr>,
       idleTracker = createIdleTracker,
       previousState = None \<rparr>"

text \<open>The loop, run over the indices \<open>0, ..., k - 1\<close>.\<close>

definition runLoop :: "AnalyticsConfig \<Rightarrow> GPSTrackPoint list \<Rightarrow> nat \<Rightarrow> LoopState" where
  "runLoop config pts k = foldl (loopBody config pts) initialLoopState [0..<k]"

text \<open>Handle the case where the track ends in idle state.\<close>

definition finalizeOpenIdle ::
  "AnalyticsConfig \<Rightarrow> GPSTrackPoint list \<Rightarrow> LoopState \<Rightarrow> MetricsAccumulator" where
  "finalizeOpenIdle config pts st =
     (if isInIdleState (idleTracker st) then
        let lastPoint = pts ! (length pts - 1);
            result = exitIdleState (idleTracker st) (timestamp lastPoint)
                       (longIdleThresholdMinutes config)
        in (case snd result of
              Some event \<Rightarrow>
                (accumulator st) \<lparr> MetricsAccumulator.longIdleEvents :=
                                     MetricsAccumulator.longIdleEvents (accumulator st) @ [event] \<rparr>
            | None \<Rightarrow> accumulator st)
      else accumulator st)"

definition computeBaseMetrics :: "GPSTrackResponse \<Rightarrow> AnalyticsConfig \<Rightarrow> BaseVehicleMetrics" where
  "computeBaseMetrics track config =
     (let totalTimeMinutes' =
            getDurationMinutes (GPSTrackResponse.startTime track) (GPSTrackResponse.endTime track)
      in if length (points track) = 0 then
           createEmptyMetrics (GPSTrackResponse.vehicleId track) (GPSTrackResponse.startTime track)
             (GPSTrackResponse.endTime track) totalTimeMinutes'
         else if length (points track) = 1 then
           let singlePoint = points track ! 0
           in (createEmptyMetrics (GPSTrackResponse.vehicleId track)
                 (GPSTrackResponse.startTime track) (GPSTrackResponse.endTime track) totalTimeMinutes')
                \<lparr> maxSpeedKmh := (if ignitionOn singlePoint then speed singlePoint else Fin 0),
                  totalPointsAnalyzed := Fin 1 \<rparr>
         else
           let acc = finalizeOpenIdle config (points track)
                       (runLoop config (points track) (length (points track)));
               averageSpeedKmh' =
                 safeDivide0 (MetricsAccumulator.totalDistanceKm acc)
                   (num_div (MetricsAccumulator.totalMovingTimeMinutes acc) (Fin 60))
           in \<lparr> vehicleId = GPSTrackResponse.vehicleId track,
                periodStart = GPSTrackResponse.startTime track,
                periodEnd = GPSTrackResponse.endTime track,
                totalDistanceKm = MetricsAccumulator.totalDistanceKm acc,
                totalMovingTimeMinutes = MetricsAccumulator.totalMovingTimeMinutes acc,
                totalIdleTimeMinutes = MetricsAccumulator.totalIdleTimeMinutes acc,
                totalTimeMinutes = totalTimeMinutes',
                averageSpeedKmh = averageSpeedKmh',
                maxSpeedKmh = MetricsAccumulator.maxSpeedKmh acc,
                numberOfStops = MetricsAccumulator.numberOfStops acc,
                longIdleEvents = MetricsAccumulator.longIdleEvents acc,
                totalPointsAnalyzed = Fin (real (length (points track))) \<rparr>)"

text \<open>The accumulator after the loop and the step that closes an idle run still open.\<close>

definition loopResult :: "GPSTrackResponse \<Rightarrow> AnalyticsConfig \<Rightarrow> MetricsAccumulator" where
  "loopResult track config =
     finalizeOpenIdle config (points track) (runLoop config (points track) (length (points track)))"

section \<open>Fleet aggregator: rankings\<close>

text \<open>
  Modelled from the spec: \<open>String.prototype.localeCompare\<close> is a function of the host,
  not of the source. The specification names the order "vehicleId ascending
  (lexicographic)", so the comparison is that of the strings character by character, by
  character code. The collation of a host can differ from it, for example on letters of
  different case.
\<close>

definition localeCompare :: "string \<Rightarrow> string \<Rightarrow> number" where
  "localeCompare a b = (if a < b then Fin (- 1) else if b < a then Fin 1 else Fin 0)"

text \<open>A sortable entry \<open>{ vehicleId, score }\<close> is a pair.\<close>

definition compareByScoreDesc :: "string \<times> number \<Rightarrow> string \<times> number \<Rightarrow> number" where
  "compareByScoreDesc a b =
     (if \<not> strict_eq (snd b) (snd a) then num_sub (snd b) (snd a)
      else localeCompare (fst a) (fst b))"

text \<open>
  \<open>Array.prototype.sort(compareFn)\<close> is a stable sort: an element \<open>x\<close> goes after \<open>y\<close>
  when \<open>compareFn(x, y) > 0\<close>, and elements that compare as equal (a result of 0 or NaN)
  keep their order. For a consistent comparator every stable sort returns the list that
  this insertion sort returns.
\<close>

fun insertSorted :: "('a \<Rightarrow> 'a \<Rightarrow> number) \<Rightarrow> 'a \<Rightarrow> 'a list \<Rightarrow> 'a list" where
  "insertSorted compareFn x [] = [x]"
| "insertSorted compareFn x (y # ys) =
     (if num_gt (compareFn x y) (Fin 0) then y # insertSorted compareFn x ys else x # y # ys)"

definition Array_sort :: "('a \<Rightarrow> 'a \<Rightarrow> number) \<Rightarrow> 'a list \<Rightarrow> 'a list" where
  "Array_sort compareFn xs = foldr (insertSorted compareFn) xs []"

definition createRanking :: "string \<Rightarrow> string \<Rightarrow> number \<Rightarrow> nat \<Rightarrow> VehicleRanking" where
  "createRanking vehicleId' vehicleName' score' rank' =
     \<lparr> VehicleRanking.vehicleId = vehicleId', vehicleName = vehicleName',
       score = score', rank = rank' \<rparr>"

text \<open>
  Assign sequential ranks: \<open>sorted.map((entry, index) => createRanking(..., index + 1))\<close>.
  A rank is an array index plus one, a natural number.
\<close>

definition assignRanks :: "(string \<times> number) list \<Rightarrow> VehicleRanking list" where
  "assignRanks sorted' =
     map (\<lambda>(entry, index). createRanking (fst entry) (fst entry) (snd entry) (index + 1))
         (zip sorted' [0..<length sorted'])"

definition rankByEfficiency :: "DerivedVehicleMetrics list \<Rightarrow> VehicleRanking list" where
  "rankByEfficiency metrics =
     (if length metrics = 0 then []
      else
        let entries = map (\<lambda>m. (vehicleId m, efficiencyScore m)) metrics;
            sorted' = Array_sort compareByScoreDesc entries
        in assignRanks sorted')"


section \<open>Notions of the specification\<close>

text \<open>
  The state of the point at an index, the minutes of the segment that ends at an index,
  and a sum of minutes taken in the order in which the code adds them.
\<close>

definition stateAt :: "AnalyticsConfig \<Rightarrow> GPSTrackPoint list \<Rightarrow> nat \<Rightarrow> VehicleState" where
  "stateAt config pts i = classifyPointState (pts ! i) config"

definition segmentMinutes :: "GPSTrackPoint list \<Rightarrow> nat \<Rightarrow> number" where
  "segmentMinutes pts i = getPointDurationMinutes (pts ! (i - 1)) (pts ! i)"

definition sumMinutes :: "number list \<Rightarrow> number" where
  "sumMinutes ds = foldl num_add (Fin 0) ds"

text \<open>
  The time of the segments \<open>(i - 1, i)\<close> with \<open>1 \<le> i < k\<close> whose earlier point is in
  state \<open>s\<close>; over the whole track, the time spent in \<open>s\<close>. The time in state \<open>Off\<close>
  is the time that the engine drops.
\<close>

definition timeInStateUpto ::
  "AnalyticsConfig \<Rightarrow> GPSTrackPoint list \<Rightarrow> VehicleState \<Rightarrow> nat \<Rightarrow> number" where
  "timeInStateUpto config pts s k =
     sumMinutes [segmentMinutes pts i. i \<leftarrow> [1..<k], stateAt config pts (i - 1) = s]"

definition timeInState :: "AnalyticsConfig \<Rightarrow> GPSTrackPoint list \<Rightarrow> VehicleState \<Rightarrow> number" where
  "timeInState config pts s = timeInStateUpto config pts s (length pts)"





text \<open>
  The indices \<open>i\<close> of the consecutive pairs \<open>(i - 1, i)\<close> whose earlier point is moving
  and whose later point is idle or off.
\<close>

definition stopTransitionsUpto :: "AnalyticsConfig \<Rightarrow> GPSTrackPoint list \<Rightarrow> nat \<Rightarrow> nat list" where
  "stopTransitionsUpto config pts k =
     [i \<leftarrow> [1..<k]. stateAt config pts (i - 1) = Moving
                      \<and> (stateAt config pts i = Idle \<or> stateAt config pts i = Off)]"

definition stopTransitions :: "AnalyticsConfig \<Rightarrow> GPSTrackPoint list \<Rightarrow> nat list" where
  "stopTransitions config pts = stopTransitionsUpto config pts (length pts)"









definition nonNegative :: "number \<Rightarrow> bool" where
  "nonNegative x = num_le (Fin 0) x"



section \<open>Notions of the proofs\<close>







section \<open>Example inputs\<close>

definition exampleMetrics :: DerivedVehicleMetrics where
  "exampleMetrics =
     \<lparr> vehicleId = ''V1'', periodStart = Some 0, periodEnd = Some 3600000,
       totalDistanceKm = Fin 50, totalMovingTimeMinutes = Fin 40, totalIdleTimeMinutes = Fin 10,
       totalTimeMinutes = Fin 60, averageSpeedKmh = Fin 75, maxSpeedKmh = Fin 120,
       numberOfStops = Fin 10, longIdleEvents = [], totalPointsAnalyzed = Fin 100,
       idleRatio = Fin (1 / 5), aggressiveDrivingRatio = Fin (1 / 10),
       timeOverSpeedThresholdMinutes = Fin 4, efficiencyScore = Fin 0, riskScore = Fin 0 \<rparr>"

text \<open>A point at latitude 0 and longitude 0, by minute, speed and ignition.\<close>

definition pointAt :: "int \<Rightarrow> real \<Rightarrow> bool \<Rightarrow> GPSTrackPoint" where
  "pointAt minute v ign =
     \<lparr> latitude = Fin 0, longitude = Fin 0, speed = Fin v,
       timestamp = Some (minute * 60000), ignitionOn = ign \<rparr>"

text \<open>
  Moving for 10 minutes, idle for 20, off for 10, moving for 5, and idle at the last point.
\<close>

definition exampleTrack :: GPSTrackResponse where
  "exampleTrack =
     \<lparr> GPSTrackResponse.vehicleId = ''V1'', GPSTrackResponse.startTime = Some 0,
       GPSTrackResponse.endTime = Some 3600000,
       points = [pointAt 0 50 True, pointAt 10 0 True, pointAt 25 1 True,
                 pointAt 30 0 False, pointAt 40 60 True, pointAt 45 0 True] \<rparr>"

definition emptyTrack :: GPSTrackResponse where
  "emptyTrack =
     \<lparr> GPSTrackResponse.vehicleId = ''V2'', GPSTrackResponse.startTime = Some 0,
       GPSTrackResponse.endTime = Some 3600000, points = [] \<rparr>"





text \<open>Vehicles for rankings: two with equal scores, and one with a NaN score.\<close>

definition vehicleWith :: "string \<Rightarrow> number \<Rightarrow> DerivedVehicleMetrics" where
  "vehicleWith name s = exampleMetrics \<lparr> vehicleId := name, efficiencyScore := s, riskScore := s \<rparr>"

text \<open>
  The points and tracks of the tests of the repository (analytics/__tests__): latitude
  40.7128, longitude -74.006, ignition on, timestamps in minutes after 2024-01-15T09:00:00Z.
\<close>

definition testPoint :: "real \<Rightarrow> int \<Rightarrow> GPSTrackPoint" where
  "testPoint v minute =
     \<lparr> latitude = Fin (407128 / 10000), longitude = Fin (- (74006 / 1000)), speed = Fin v,
       timestamp = Some (1705309200000 + minute * 60000), ignitionOn = True \<rparr>"

definition testTrack :: "GPSTrackPoint list \<Rightarrow> GPSTrackResponse" where
  "testTrack pts =
     \<lparr> GPSTrackResponse.vehicleId = ''vehicle-001'',
       GPSTrackResponse.startTime =
         (case pts of [] \<Rightarrow> Some 1705309200000 | p # _ \<Rightarrow> timestamp p),
       GPSTrackResponse.endTime =
         (case pts of [] \<Rightarrow> Some 1705312800000 | _ \<Rightarrow> timestamp (last pts)),
       points = pts \<rparr>"


section \<open>Facts about numbers\<close>














section \<open>Safe division\<close>



section \<open>Cost model\<close>



section \<open>Score bounds\<close>















section \<open>The loop of computeBaseMetrics\<close>

lemma runLoop_0: "runLoop config pts 0 = initialLoopState"
  by (simp add: runLoop_def)

lemma runLoop_Suc: "runLoop config pts (Suc k) = loopBody config pts (runLoop config pts k) k"
  by (simp add: runLoop_def)

lemma previousState_loopBody:
  "previousState (loopBody config pts st i) = Some (stateAt config pts i)"
  by (simp add: loopBody_def Let_def split_def stateAt_def)

lemma previousState_runLoop:
  "previousState (runLoop config pts k) = (if k = 0 then None else Some (stateAt config pts (k - 1)))"
  by (cases k) (simp_all add: runLoop_0 runLoop_Suc previousState_loopBody initialLoopState_def)

lemma handleIdleTransition_times:
  "MetricsAccumulator.totalMovingTimeMinutes (fst (handleIdleTransition config p ps cs acc tr)) = MetricsAccumulator.totalMovingTimeMinutes acc"
  "MetricsAccumulator.totalIdleTimeMinutes (fst (handleIdleTransition config p ps cs acc tr)) = MetricsAccumulator.totalIdleTimeMinutes acc"
  "MetricsAccumulator.numberOfStops (fst (handleIdleTransition config p ps cs acc tr)) = MetricsAccumulator.numberOfStops acc"
  "MetricsAccumulator.totalDistanceKm (fst (handleIdleTransition config p ps cs acc tr)) = MetricsAccumulator.totalDistanceKm acc"
  "MetricsAccumulator.maxSpeedKmh (fst (handleIdleTransition config p ps cs acc tr)) = MetricsAccumulator.maxSpeedKmh acc"
  by (simp_all add: handleIdleTransition_def Let_def split: option.split)

lemma loopBody_moving:
  "MetricsAccumulator.totalMovingTimeMinutes (accumulator (loopBody config pts st i)) =
     (if 0 < i \<and> previousState st = Some Moving
      then num_add (MetricsAccumulator.totalMovingTimeMinutes (accumulator st)) (segmentMinutes pts i)
      else MetricsAccumulator.totalMovingTimeMinutes (accumulator st))"
  by (simp add: loopBody_def Let_def split_def handleIdleTransition_times processSegment_def
      trackMaxSpeed_def collectSpeedSample_def segmentMinutes_def split: option.split)

lemma loopBody_idle:
  "MetricsAccumulator.totalIdleTimeMinutes (accumulator (loopBody config pts st i)) =
     (if 0 < i \<and> previousState st = Some Idle
      then num_add (MetricsAccumulator.totalIdleTimeMinutes (accumulator st)) (segmentMinutes pts i)
      else MetricsAccumulator.totalIdleTimeMinutes (accumulator st))"
  by (simp add: loopBody_def Let_def split_def handleIdleTransition_times processSegment_def
      trackMaxSpeed_def collectSpeedSample_def segmentMinutes_def split: option.split)

lemma loopBody_stops:
  "MetricsAccumulator.numberOfStops (accumulator (loopBody config pts st i)) =
     (if 0 < i \<and> previousState st = Some Moving
         \<and> (stateAt config pts i = Idle \<or> stateAt config pts i = Off)
      then num_add (MetricsAccumulator.numberOfStops (accumulator st)) (Fin 1)
      else MetricsAccumulator.numberOfStops (accumulator st))"
  by (simp add: loopBody_def Let_def split_def handleIdleTransition_times processSegment_def
      trackMaxSpeed_def collectSpeedSample_def stateAt_def isStopTransition_def split: option.split)


lemma timeInStateUpto_le_1: "k \<le> 1 \<Longrightarrow> timeInStateUpto config pts s k = Fin 0"
  by (simp add: timeInStateUpto_def sumMinutes_def)

lemma timeInStateUpto_Suc:
  "0 < k \<Longrightarrow> timeInStateUpto config pts s (Suc k) =
     (if stateAt config pts (k - 1) = s
      then num_add (timeInStateUpto config pts s k) (segmentMinutes pts k)
      else timeInStateUpto config pts s k)"
  by (simp add: timeInStateUpto_def sumMinutes_def)

lemma runLoop_moving:
  "MetricsAccumulator.totalMovingTimeMinutes (accumulator (runLoop config pts k)) =
     timeInStateUpto config pts Moving k"
proof (induction k)
  case 0
  show ?case by (simp add: runLoop_0 initialLoopState_def timeInStateUpto_le_1)
next
  case (Suc k)
  show ?case
  proof (cases "k = 0")
    case True
    then show ?thesis
      by (simp add: runLoop_Suc runLoop_0 loopBody_moving initialLoopState_def timeInStateUpto_le_1)
  next
    case False
    with Suc show ?thesis
      by (simp add: runLoop_Suc loopBody_moving previousState_runLoop timeInStateUpto_Suc)
  qed
qed

lemma runLoop_idle:
  "MetricsAccumulator.totalIdleTimeMinutes (accumulator (runLoop config pts k)) =
     timeInStateUpto config pts Idle k"
proof (induction k)
  case 0
  show ?case by (simp add: runLoop_0 initialLoopState_def timeInStateUpto_le_1)
next
  case (Suc k)
  show ?case
  proof (cases "k = 0")
    case True
    then show ?thesis
      by (simp add: runLoop_Suc runLoop_0 loopBody_idle initialLoopState_def timeInStateUpto_le_1)
  next
    case False
    with Suc show ?thesis
      by (simp add: runLoop_Suc loopBody_idle previousState_runLoop timeInStateUpto_Suc)
  qed
qed

lemma stopTransitionsUpto_Suc:
  "0 < k \<Longrightarrow> stopTransitionsUpto config pts (Suc k) =
     (if stateAt config pts (k - 1) = Moving
          \<and> (stateAt config pts k = Idle \<or> stateAt config pts k = Off)
      then stopTransitionsUpto config pts k @ [k]
      else stopTransitionsUpto config pts k)"
  by (simp add: stopTransitionsUpto_def)

lemma runLoop_stops:
  "MetricsAccumulator.numberOfStops (accumulator (runLoop config pts k)) =
     Fin (real (length (stopTransitionsUpto config pts k)))"
proof (induction k)
  case 0
  show ?case by (simp add: runLoop_0 initialLoopState_def stopTransitionsUpto_def)
next
  case (Suc k)
  show ?case
  proof (cases "k = 0")
    case True
    then show ?thesis
      by (simp add: runLoop_Suc runLoop_0 loopBody_stops initialLoopState_def stopTransitionsUpto_def)
  next
    case False
    with Suc show ?thesis
      by (simp add: runLoop_Suc loopBody_stops previousState_runLoop stopTransitionsUpto_Suc)
  qed
qed

lemma finalizeOpenIdle_fields:
  "MetricsAccumulator.totalMovingTimeMinutes (finalizeOpenIdle config pts st) = MetricsAccumulator.totalMovingTimeMinutes (accumulator st)"
  "MetricsAccumulator.totalIdleTimeMinutes (finalizeOpenIdle config pts st) = MetricsAccumulator.totalIdleTimeMinutes (accumulator st)"
  "MetricsAccumulator.numberOfStops (finalizeOpenIdle config pts st) = MetricsAccumulator.numberOfStops (accumulator st)"
  "MetricsAccumulator.totalDistanceKm (finalizeOpenIdle config pts st) = MetricsAccumulator.totalDistanceKm (accumulator st)"
  "MetricsAccumulator.maxSpeedKmh (finalizeOpenIdle config pts st) = MetricsAccumulator.maxSpeedKmh (accumulator st)"
  by (simp_all add: finalizeOpenIdle_def Let_def split: option.split)

lemma computeBaseMetrics_many:
  assumes "2 \<le> length (points track)"
  shows "computeBaseMetrics track config =
     \<lparr> vehicleId = GPSTrackResponse.vehicleId track,
       periodStart = GPSTrackResponse.startTime track,
       periodEnd = GPSTrackResponse.endTime track,
       totalDistanceKm = MetricsAccumulator.totalDistanceKm (loopResult track config),
       totalMovingTimeMinutes = MetricsAccumulator.totalMovingTimeMinutes (loopResult track config),
       totalIdleTimeMinutes = MetricsAccumulator.totalIdleTimeMinutes (loopResult track config),
       totalTimeMinutes =
         getDurationMinutes (GPSTrackResponse.startTime track) (GPSTrackResponse.endTime track),
       averageSpeedKmh =
         safeDivide0 (MetricsAccumulator.totalDistanceKm (loopResult track config))
           (num_div (MetricsAccumulator.totalMovingTimeMinutes (loopResult track config)) (Fin 60)),
       maxSpeedKmh = MetricsAccumulator.maxSpeedKmh (loopResult track config),
       numberOfStops = MetricsAccumulator.numberOfStops (loopResult track config),
       longIdleEvents = MetricsAccumulator.longIdleEvents (loopResult track config),
       totalPointsAnalyzed = Fin (real (length (points track))) \<rparr>"
proof -
  from assms have "length (points track) \<noteq> 0" "length (points track) \<noteq> 1"
    by auto
  then show ?thesis
    unfolding computeBaseMetrics_def Let_def loopResult_def by (simp only: if_False)
qed

lemma computeBaseMetrics_times:
  assumes "2 \<le> length (points track)"
  shows "totalMovingTimeMinutes (computeBaseMetrics track config) = timeInState config (points track) Moving"
    and "totalIdleTimeMinutes (computeBaseMetrics track config) = timeInState config (points track) Idle"
    and "numberOfStops (computeBaseMetrics track config) = Fin (real (length (stopTransitions config (points track))))"
  by (simp_all add: computeBaseMetrics_many [OF assms] loopResult_def finalizeOpenIdle_fields runLoop_moving
      runLoop_idle runLoop_stops timeInState_def stopTransitions_def)










section \<open>Segment attribution, stops and the empty track\<close>


text \<open>
  Claim C5. For a track with at least two points, \<open>numberOfStops\<close> is the number of
  consecutive pairs of points whose earlier point is moving and whose later point is idle
  or off.
\<close>

theorem stops_counted_once_per_transition:
  assumes "2 \<le> length (points track)"
  shows "numberOfStops (computeBaseMetrics track config) =
           Fin (real (length (stopTransitions config (points track))))"
  using assms by (rule computeBaseMetrics_times(3))

text \<open>
  Claim C8. For a track without points, \<open>computeBaseMetrics\<close> returns zero in every
  accumulated field, no idle events and \<open>totalPointsAnalyzed = 0\<close>, and
  \<open>totalTimeMinutes\<close> is the duration from the declared start to the declared end, which
  is 0 when a bound does not parse or the end is before the start.
\<close>

theorem empty_track_metrics:
  assumes "points track = []"
  shows "computeBaseMetrics track config =
     \<lparr> vehicleId = GPSTrackResponse.vehicleId track,
       periodStart = GPSTrackResponse.startTime track,
       periodEnd = GPSTrackResponse.endTime track,
       totalDistanceKm = Fin 0, totalMovingTimeMinutes = Fin 0, totalIdleTimeMinutes = Fin 0,
       totalTimeMinutes =
         (case (GPSTrackResponse.startTime track, GPSTrackResponse.endTime track) of
            (Some s, Some e) \<Rightarrow> if e < s then Fin 0 else Fin (real_of_int (e - s) / 60000)
          | _ \<Rightarrow> Fin 0),
       averageSpeedKmh = Fin 0, maxSpeedKmh = Fin 0, numberOfStops = Fin 0,
       longIdleEvents = [], totalPointsAnalyzed = Fin 0 \<rparr>"
  using assms
  by (simp add: computeBaseMetrics_def createEmptyMetrics_def getDurationMinutes_def
      parseTimestamp_def Let_def split: option.split)

text \<open>The three theorems on the example track and on a track without points.\<close>

lemma upt_1_6: "[1..<6] = [1, 2, 3, 4, 5]"
  by (simp add: upt_rec)


theorem stops_counted_once_per_transition_witness:
  "2 \<le> length (points exampleTrack)
   \<and> numberOfStops (computeBaseMetrics exampleTrack ANALYTICS_CONFIG) = Fin 2"
proof -
  have h: "2 \<le> length (points exampleTrack)"
    by (simp add: exampleTrack_def)
  have "stopTransitions ANALYTICS_CONFIG (points exampleTrack) = [1, 5]"
    by (simp add: stopTransitions_def stopTransitionsUpto_def exampleTrack_def pointAt_def
        upt_1_6 stateAt_def classifyPointState_def ANALYTICS_CONFIG_def)
  with h stops_counted_once_per_transition [OF h, of ANALYTICS_CONFIG] show ?thesis
    by simp
qed

theorem empty_track_metrics_witness:
  "points emptyTrack = []
   \<and> totalTimeMinutes (computeBaseMetrics emptyTrack ANALYTICS_CONFIG) = Fin 60
   \<and> totalPointsAnalyzed (computeBaseMetrics emptyTrack ANALYTICS_CONFIG) = Fin 0
   \<and> longIdleEvents (computeBaseMetrics emptyTrack ANALYTICS_CONFIG) = []"
proof -
  have h: "points emptyTrack = []"
    by (simp add: emptyTrack_def)
  from empty_track_metrics [OF h, of ANALYTICS_CONFIG] h show ?thesis
    by (simp add: emptyTrack_def)
qed

section \<open>Idle events\<close>











lemma map_filter_Nil: "List.map_filter f [] = []"
  by (simp add: List.map_filter_def)

lemma map_filter_single: "List.map_filter f [x] = (case f x of Some y \<Rightarrow> [y] | None \<Rightarrow> [])"
  by (simp add: List.map_filter_def split: option.split)























text \<open>The example track: its states, its idle runs and its one event.\<close>

lemma example_states:
  "map (stateAt ANALYTICS_CONFIG (points exampleTrack)) [0, 1, 2, 3, 4, 5] =
     [Moving, Idle, Idle, Off, Moving, Idle]"
  by (simp add: stateAt_def classifyPointState_def exampleTrack_def pointAt_def ANALYTICS_CONFIG_def)












section \<open>Signs of the base metrics\<close>



















lemma nonNegative_iff: "nonNegative x \<longleftrightarrow> (\<exists>r. x = Fin r \<and> 0 \<le> r) \<or> x = PosInf"
  by (cases x) (auto simp: nonNegative_def num_le_def strict_eq_def)






section \<open>Rankings\<close>















lemma names_assignRanks:
  "map vehicleName (assignRanks xs) = map VehicleRanking.vehicleId (assignRanks xs)"
  by (simp add: assignRanks_def createRanking_def split_def)








section \<open>The tests of the repository and the examples of the specification, on the model\<close>

lemma upt_unfold:
  "[0..<3] = [0, 1, 2]" "[0..<6] = [0, 1, 2, 3, 4, 5]" "[0..<7] = [0, 1, 2, 3, 4, 5, 6]"
  by (simp_all add: upt_rec)

text \<open>"should count stops correctly", by running the loop.\<close>

lemma test_count_stops:
  "numberOfStops (computeBaseMetrics
     (testTrack [testPoint 60 0, testPoint 60 5, testPoint 0 10, testPoint 0 15,
                 testPoint 50 20, testPoint 50 25, testPoint 0 30]) ANALYTICS_CONFIG) = Fin 2"
  by (simp add: computeBaseMetrics_def testTrack_def testPoint_def ANALYTICS_CONFIG_def
      runLoop_def loopBody_def initialLoopState_def classifyPointState_def trackMaxSpeed_def
      collectSpeedSample_def processSegment_def handleIdleTransition_def isStopTransition_def
      createIdleTracker_def enterIdleState_def accumulateIdleTime_def exitIdleState_def
      calculateSegmentDistance_def haversineDistance_def getPointDurationMinutes_def
      getDurationMinutes_def parseTimestamp_def finalizeOpenIdle_def num_gt_def num_ge_def
      num_le_def strict_eq_def Let_def upt_unfold split_def)

text \<open>"should detect long idle events": four segments of five minutes.\<close>

lemma test_long_idle:
  "map durationMinutes (longIdleEvents (computeBaseMetrics
     (testTrack [testPoint 60 0, testPoint 0 5, testPoint 0 10, testPoint 0 15,
                 testPoint 0 20, testPoint 60 25]) ANALYTICS_CONFIG)) = [Fin 20]"
  by (simp add: computeBaseMetrics_def testTrack_def testPoint_def ANALYTICS_CONFIG_def
      runLoop_def loopBody_def initialLoopState_def classifyPointState_def trackMaxSpeed_def
      collectSpeedSample_def processSegment_def handleIdleTransition_def isStopTransition_def
      createIdleTracker_def enterIdleState_def accumulateIdleTime_def exitIdleState_def
      calculateSegmentDistance_def haversineDistance_def getPointDurationMinutes_def
      getDurationMinutes_def parseTimestamp_def finalizeOpenIdle_def num_gt_def num_ge_def
      num_le_def strict_eq_def Let_def upt_unfold split_def)

text \<open>"should not count short idle as long idle event": eight idle minutes, no event.\<close>

lemma test_short_idle:
  "longIdleEvents (computeBaseMetrics
     (testTrack [testPoint 60 0, testPoint 0 5, testPoint 60 13]) ANALYTICS_CONFIG) = []
   \<and> totalIdleTimeMinutes (computeBaseMetrics
     (testTrack [testPoint 60 0, testPoint 0 5, testPoint 60 13]) ANALYTICS_CONFIG) = Fin 8"
  by (simp add: computeBaseMetrics_def testTrack_def testPoint_def ANALYTICS_CONFIG_def
      runLoop_def loopBody_def initialLoopState_def classifyPointState_def trackMaxSpeed_def
      collectSpeedSample_def processSegment_def handleIdleTransition_def isStopTransition_def
      createIdleTracker_def enterIdleState_def accumulateIdleTime_def exitIdleState_def
      calculateSegmentDistance_def haversineDistance_def getPointDurationMinutes_def
      getDurationMinutes_def parseTimestamp_def finalizeOpenIdle_def num_gt_def num_ge_def
      num_le_def strict_eq_def Let_def upt_unfold split_def)

text \<open>"should handle single-point track".\<close>

lemma test_single_point:
  "maxSpeedKmh (computeBaseMetrics (testTrack [testPoint 50 0]) ANALYTICS_CONFIG) = Fin 50
   \<and> totalPointsAnalyzed (computeBaseMetrics (testTrack [testPoint 50 0]) ANALYTICS_CONFIG) = Fin 1
   \<and> totalDistanceKm (computeBaseMetrics (testTrack [testPoint 50 0]) ANALYTICS_CONFIG) = Fin 0"
  by (simp add: computeBaseMetrics_def testTrack_def testPoint_def createEmptyMetrics_def Let_def)

text \<open>"should use vehicleId as tie-breaker (alphabetical)".\<close>

lemma test_tie_break:
  "map VehicleRanking.vehicleId (rankByEfficiency
      [vehicleWith ''charlie'' (Fin 80), vehicleWith ''alpha'' (Fin 80),
       vehicleWith ''bravo'' (Fin 80)]) =
     [''alpha'', ''bravo'', ''charlie'']"
  by (simp add: rankByEfficiency_def Let_def vehicleWith_def Array_sort_def compareByScoreDesc_def
      strict_eq_def localeCompare_def num_gt_def assignRanks_def createRanking_def upt_unfold
      less_char_def)

text \<open>
  The examples of the specification: the stop score of 10 stops on 50 km with penalty
  factor 50 is 90; the erratic pattern score of a maximum of 120 over an average of 60 is
  100; the default weights give the example metrics the efficiency score 66 5/7.
\<close>

lemma spec_example_scores:
  "calculateStopScore (exampleMetrics \<lparr> numberOfStops := Fin 10, totalDistanceKm := Fin 50 \<rparr>)
     (Fin 50) = Fin 90"
  "calculateErraticPatternScore (exampleMetrics \<lparr> maxSpeedKmh := Fin 120,
     averageSpeedKmh := Fin 60 \<rparr>) = Fin 100"
  "calculateMaxSpeedSeverityScore (exampleMetrics \<lparr> maxSpeedKmh := Fin 500 \<rparr>) (Fin 110) = Fin 100"
  by (simp_all add: calculateStopScore_def calculateErraticPatternScore_def
      calculateMaxSpeedSeverityScore_def exampleMetrics_def safeDivide_def strict_eq_def
      Math_max_def Math_min_def clamp_def num_sub_def Let_def SPEED_EXCESS_REFERENCE_KMH_def)


end
